theory Spec2Isabelle
  imports Main "HOL-Library.AList" "HOL-Library.Word"
begin

section \<open>JavaScript values\<close>

text \<open>
  The add-on of \<^verbatim>\<open>src/lib/addons/argocd/index.ts\<close> assembles plain JavaScript
  objects (chart values, Kubernetes documents) and hands them to the CDK. A value is one
  of the JSON shapes plus \<^verbatim>\<open>undefined\<close>. A number is an IEEE double, kept as its 64
  bits; the add-on never computes with one.

  An object is the list of its own enumerable properties in the order the object
  enumerates them, each key once.
\<close>

type_synonym number = "64 word"

datatype jsval =
    JUndefined
  | JNull
  | JBool bool
  | JNum number
  | JStr string
  | JArr "jsval list"
  | JObj "(string \<times> jsval) list"

type_synonym props = "(string \<times> jsval) list"

text \<open>Decimal rendering of an index, as used for the property keys of arrays and strings.\<close>

fun string_of_nat :: "nat \<Rightarrow> string" where
  "string_of_nat n =
     (if n < 10 then [char_of (48 + n)]
      else string_of_nat (n div 10) @ [char_of (48 + n mod 10)])"

declare string_of_nat.simps [simp del]

text \<open>The own enumerable properties that a spread \<^verbatim>\<open>...v\<close> copies out of \<open>v\<close>.\<close>

fun own_props :: "jsval \<Rightarrow> props" where
  "own_props (JObj ps) = ps"
| "own_props (JArr xs) = zip (map string_of_nat [0..<length xs]) xs"
| "own_props (JStr s) = zip (map string_of_nat [0..<length s]) (map (\<lambda>c. JStr [c]) s)"
| "own_props _ = []"

text \<open>
  An object enumerates its array-index keys first, in ascending numeric order, and then
  its other keys in creation order. An array index is the canonical decimal string of a
  number below \<open>2\<^sup>3\<^sup>2 - 1\<close>.
\<close>

definition is_digit :: "char \<Rightarrow> bool" where
  "is_digit c = (48 \<le> (of_char c :: nat) \<and> (of_char c :: nat) \<le> 57)"

definition int_of_digits :: "string \<Rightarrow> int" where
  "int_of_digits k = foldl (\<lambda>n c. 10 * n + (of_char c - 48)) 0 k"

definition array_index :: "string \<Rightarrow> int option" where
  "array_index k =
     (if k \<noteq> [] \<and> list_all is_digit k \<and> (k = ''0'' \<or> hd k \<noteq> CHR ''0'') \<and>
         int_of_digits k < 4294967295
      then Some (int_of_digits k) else None)"

text \<open>A new array-index key goes before the first key that is not a smaller array index.\<close>

fun insert_index :: "int \<Rightarrow> string \<Rightarrow> jsval \<Rightarrow> props \<Rightarrow> props" where
  "insert_index i k v [] = [(k, v)]"
| "insert_index i k v ((k', v') # ps) =
     (case array_index k' of
        Some j \<Rightarrow>
          if j < i then (k', v') # insert_index i k v ps else (k, v) # (k', v') # ps
      | None \<Rightarrow> (k, v) # (k', v') # ps)"

text \<open>
  Defining a property: a key already there keeps its place and takes the new value; a new
  key takes its place in the enumeration order.
\<close>

definition define_prop :: "string \<Rightarrow> jsval \<Rightarrow> props \<Rightarrow> props" where
  "define_prop k v ps =
     (if k \<in> set (map fst ps) then AList.update k v ps
      else (case array_index k of
              Some i \<Rightarrow> insert_index i k v ps
            | None \<Rightarrow> ps @ [(k, v)]))"

text \<open>
  \<^verbatim>\<open>{...a, ...b}\<close>: starting from the empty object, each source's properties are
  defined in the order the source enumerates them.
\<close>

definition spread :: "props \<Rightarrow> jsval \<Rightarrow> props" where
  "spread target src = fold (\<lambda>(k, v). define_prop k v) (own_props src) target"

definition object_spread :: "jsval list \<Rightarrow> props" where
  "object_spread srcs = fold (\<lambda>src target. spread target src) srcs []"

text \<open>Reading a property; a missing one (or a read on a non-object) is \<^verbatim>\<open>undefined\<close>.\<close>

definition get_prop :: "string \<Rightarrow> jsval \<Rightarrow> jsval" where
  "get_prop k v =
     (case v of
        JObj ps \<Rightarrow> (case map_of ps k of Some x \<Rightarrow> x | None \<Rightarrow> JUndefined)
      | _ \<Rightarrow> JUndefined)"

fun path_of :: "jsval \<Rightarrow> string list \<Rightarrow> jsval" where
  "path_of v [] = v"
| "path_of v (k # ks) = path_of (get_prop k v) ks"

definition field_map :: "jsval \<Rightarrow> string \<rightharpoonup> jsval" where
  "field_map v = (case v of JObj ps \<Rightarrow> map_of ps | _ \<Rightarrow> Map.empty)"

text \<open>Truthiness of an optional string: \<^verbatim>\<open>undefined\<close> and \<^verbatim>\<open>""\<close> are falsy.\<close>

fun truthy :: "string option \<Rightarrow> bool" where
  "truthy None = False"
| "truthy (Some s) = (s \<noteq> [])"

definition opt_str :: "string option \<Rightarrow> jsval" where
  "opt_str s = (case s of None \<Rightarrow> JUndefined | Some x \<Rightarrow> JStr x)"

section \<open>Configuration\<close>

datatype credentialsType = USERNAME | TOKEN | SSH

record ArgoApplicationRepository =
  repoUrl :: string
  path :: "string option"
  name :: "string option"
  credentialsSecretName :: "string option"
  credentialsType :: "credentialsType option"

record ArgoCDAddOnProps =
  namespace :: "string option"
  bootstrapRepo :: "ArgoApplicationRepository option"

definition argoDefaults :: ArgoCDAddOnProps where
  "argoDefaults = \<lparr>namespace = Some ''argocd'', bootstrapRepo = None\<rparr>"

section \<open>Collaborators and their effects\<close>

text \<open>
  The CDK cluster, the console and the secrets service are outside the repository. A call
  on one of them is recorded as an effect, in the order the calls are made; the
  collaborators are taken to accept every request.
\<close>

datatype error =
    Error string
  | SyntaxError
  | TypeError
  | AWSError string

record HelmChartOptions =
  chart :: string
  release :: string
  repository :: string
  version :: string
  chart_namespace :: "string option"
  chart_values :: jsval

datatype HelmChart = HelmChart string HelmChartOptions

record KubernetesManifestProps =
  manifest :: "jsval list"
  overwrite :: bool
  prune :: bool
  skipValidation :: "bool option"

datatype effect =
    ConsoleAssert bool
  | ConsoleLog string
  | ConsoleLogError error
  | AddHelmChart string HelmChartOptions
  | AddServiceAccount string string "string option"
  | AddManagedPolicy string string
  | GetSecretValue string string
  | NewKubernetesManifest string KubernetesManifestProps
  | AddDependency string "HelmChart option"

text \<open>
  \<^verbatim>\<open>AddServiceAccount id name namespace\<close>, \<^verbatim>\<open>AddManagedPolicy id policy\<close> (on the role
  of the service account \<open>id\<close>), \<^verbatim>\<open>GetSecretValue region SecretId\<close>,
  \<^verbatim>\<open>NewKubernetesManifest id props\<close> and \<^verbatim>\<open>AddDependency id chartNode\<close> (the manifest
  \<open>id\<close> is to be applied after \<open>chartNode\<close>, which is \<^verbatim>\<open>undefined\<close> until
  \<^verbatim>\<open>deploy\<close> has run).
\<close>

record GetSecretValueResponse =
  SecretString :: "string option"
  SecretBinary :: "8 word list option"

text \<open>
  The secrets service, by region and secret id: the request's promise is rejected
  (\<open>Inl\<close>) or fulfilled with a response, which the code also allows to be falsy
  (\<open>None\<close>). A binary payload is a Buffer, an object, hence truthy whatever its length.
\<close>

type_synonym SecretsManager = "string \<Rightarrow> string \<Rightarrow> error + GetSecretValueResponse option"

text \<open>
  An \<^verbatim>\<open>async\<close> function runs synchronously up to its first \<^verbatim>\<open>await\<close> and returns a
  promise; the rest of its body runs later, from the event loop, after the caller's own
  synchronous code has finished. A call is modelled by the effects made before it
  returns, paired with the promise: the effects still to come and the value or error the
  promise settles with.
\<close>

datatype 'a promise = Promise (later: "effect list") (settled: "error + 'a")

record ClusterInfo =
  region :: string

datatype Team = Team string

record ArgoCDAddOn =
  options :: ArgoCDAddOnProps
  chartNode :: "HelmChart option"

section \<open>The add-on\<close>

text \<open>
  The object a caller hands to the constructor: for each property, whether the object has
  it (\<open>None\<close>: it has not) and then its value, which may be \<^verbatim>\<open>undefined\<close>. The
  constructor spreads it over the defaults, so a property it has replaces the default
  even when its value is \<^verbatim>\<open>undefined\<close>.
\<close>

record ArgoCDAddOnProps_literal =
  own_namespace :: "string option option"
  own_bootstrapRepo :: "ArgoApplicationRepository option option"

definition new_ArgoCDAddOn :: "ArgoCDAddOnProps_literal option \<Rightarrow> ArgoCDAddOn" where
  "new_ArgoCDAddOn props =
     \<lparr>options =
        (case props of
           None \<Rightarrow> argoDefaults
         | Some p \<Rightarrow>
             \<lparr>namespace =
                (case own_namespace p of None \<Rightarrow> namespace argoDefaults | Some v \<Rightarrow> v),
              bootstrapRepo =
                (case own_bootstrapRepo p of
                   None \<Rightarrow> bootstrapRepo argoDefaults
                 | Some v \<Rightarrow> v)\<rparr>),
      chartNode = None\<rparr>"

text \<open>
  The array literal that \<^verbatim>\<open>deploy\<close> hands to \<^verbatim>\<open>yaml.stringify\<close>.
\<close>

definition repositories_declaration :: "ArgoApplicationRepository \<Rightarrow> jsval" where
  "repositories_declaration r =
     JArr [JObj [(''url'', JStr (repoUrl r)),
                 (''sshPrivateKeySecret'',
                    JObj [(''name'', JStr ''bootstrap-repo-secret1''),
                          (''key'', JStr ''sshPrivateKey'')])]]"

text \<open>
  \<^verbatim>\<open>deploy\<close>; \<^verbatim>\<open>yaml.stringify\<close> is a library function, taken as a parameter. The
  result is the add-on with its \<^verbatim>\<open>chartNode\<close> set, and the effects.
\<close>

definition deploy ::
  "(jsval \<Rightarrow> string) \<Rightarrow> ArgoCDAddOn \<Rightarrow> ClusterInfo \<Rightarrow> ArgoCDAddOn \<times> effect list" where
  "deploy yaml_stringify this clusterInfo =
     (let (repo, logged) =
            (case bootstrapRepo (options this) of
               None \<Rightarrow> ('''', [])
             | Some r \<Rightarrow>
                 (let y = yaml_stringify (repositories_declaration r)
                  in (y, [ConsoleLog y])));
          opts = \<lparr>chart = ''argo-cd'',
                  release = ''ssp-addon'',
                  repository = ''https://argoproj.github.io/argo-helm'',
                  version = ''3.10.0'',
                  chart_namespace = namespace (options this),
                  chart_values =
                    JObj [(''server'',
                           JObj [(''serviceAccount'', JObj [(''create'', JBool False)]),
                                 (''config'', JObj [(''repositories'', JStr repo)])])]\<rparr>
      in (this\<lparr>chartNode := Some (HelmChart ''argocd-addon'' opts)\<rparr>,
          logged @ [AddHelmChart ''argocd-addon'' opts]))"

text \<open>
  \<^verbatim>\<open>getSecretValue\<close>: the request is made before the function suspends; the response is
  handled when it resumes. The \<^verbatim>\<open>catch\<close> logs whatever was thrown and throws it again.
\<close>

definition getSecretValue ::
  "SecretsManager \<Rightarrow> string \<Rightarrow> string \<Rightarrow> effect list \<times> string promise" where
  "getSecretValue secretManager secretName rgn =
     ([GetSecretValue rgn secretName],
      (case secretManager rgn secretName of
         Inl err \<Rightarrow> Promise [ConsoleLogError err] (Inl err)
       | Inr None \<Rightarrow> Promise [] (Inr '''')
       | Inr (Some response) \<Rightarrow>
           if truthy (SecretString response) then
             Promise [] (Inr (the (SecretString response)))
           else if SecretBinary response \<noteq> None then
             (let err = Error (''Invalid secret format for '' @ secretName @
                               ''. Expected string value, received binary.'')
              in Promise [ConsoleLogError err] (Inl err))
           else Promise [] (Inr '''')))"

text \<open>
  \<^verbatim>\<open>createSecretKey\<close>; \<^verbatim>\<open>JSON.parse\<close> is taken as a parameter, \<open>None\<close> being the
  SyntaxError it throws. With no \<^verbatim>\<open>bootstrapRepo\<close> the first statement reads a property
  of \<^verbatim>\<open>undefined\<close>, so the promise is rejected before anything is done.
\<close>

definition createSecretKey ::
  "SecretsManager \<Rightarrow> (string \<Rightarrow> jsval option) \<Rightarrow> ArgoCDAddOn \<Rightarrow> ClusterInfo \<Rightarrow> string
     \<Rightarrow> effect list \<times> unit promise" where
  "createSecretKey secretManager JSON_parse this clusterInfo secretName =
     (case bootstrapRepo (options this) of
        None \<Rightarrow> ([], Promise [] (Inl TypeError))
      | Some appRepo \<Rightarrow>
          (let credentials = [(''url'', JStr (repoUrl appRepo))];
               sa = [AddServiceAccount ''argo-cd-server'' ''argocd-server''
                       (namespace (options this)),
                     AddManagedPolicy ''argo-cd-server'' ''SecretsManagerReadWrite''];
               (request, fetched) =
                 getSecretValue secretManager secretName (region clusterInfo)
           in (sa @ request,
               (case settled fetched of
                  Inl err \<Rightarrow> Promise (later fetched) (Inl err)
                | Inr secretValue \<Rightarrow>
                    (case (case credentialsType appRepo of
                             Some SSH \<Rightarrow>
                               Inr (object_spread
                                      [JObj credentials,
                                       JObj [(''sshPrivateKey'', JStr secretValue)]])
                           | Some USERNAME \<Rightarrow>
                               (case JSON_parse secretValue of
                                  None \<Rightarrow> Inl SyntaxError
                                | Some parsed \<Rightarrow>
                                    Inr (object_spread [JObj credentials, parsed]))
                           | Some TOKEN \<Rightarrow>
                               (case JSON_parse secretValue of
                                  None \<Rightarrow> Inl SyntaxError
                                | Some parsed \<Rightarrow>
                                    Inr (object_spread [JObj credentials, parsed]))
                           | None \<Rightarrow> Inr credentials) of
                       Inl err \<Rightarrow> Promise (later fetched) (Inl err)
                     | Inr credentials' \<Rightarrow>
                         Promise
                           (later fetched @
                            [NewKubernetesManifest ''argo-bootstrap-secret''
                               \<lparr>manifest =
                                  [JObj [(''apiVersion'', JStr ''v1''),
                                         (''kind'', JStr ''Secret''),
                                         (''metadata'',
                                            JObj [(''name'',
                                                   JStr (case name appRepo of
                                                           Some n \<Rightarrow> n
                                                         | None \<Rightarrow> ''bootstrap-repo-secret'')),
                                                  (''namespace'',
                                                   opt_str (namespace (options this))),
                                                  (''labels'',
                                                   JObj [(''argocd.argoproj.io/secret-type'',
                                                          JStr ''repository'')])]),
                                         (''stringData'', JObj credentials')]],
                                overwrite = True,
                                prune = True,
                                skipValidation = Some True\<rparr>,
                             AddDependency ''argo-bootstrap-secret'' (chartNode this)])
                           (Inr ()))))))"

text \<open>
  \<^verbatim>\<open>postDeploy\<close> is not \<^verbatim>\<open>async\<close> and calls \<^verbatim>\<open>createSecretKey\<close> without
  \<^verbatim>\<open>await\<close>: it goes on with the effects that call made before suspending, and the
  promise is left floating. The result is the effects made before \<^verbatim>\<open>postDeploy\<close>
  returns and the promises it leaves behind.
\<close>

definition postDeploy ::
  "SecretsManager \<Rightarrow> (string \<Rightarrow> jsval option) \<Rightarrow> ArgoCDAddOn \<Rightarrow> ClusterInfo
     \<Rightarrow> Team list option \<Rightarrow> effect list \<times> unit promise list" where
  "postDeploy secretManager JSON_parse this clusterInfo teams =
     (case bootstrapRepo (options this) of
        None \<Rightarrow> ([ConsoleAssert (teams \<noteq> None)], [])
      | Some appRepo \<Rightarrow>
          (let (started, floating) =
                 (if truthy (credentialsSecretName appRepo) then
                    (let (now, p) =
                           createSecretKey secretManager JSON_parse this clusterInfo
                             (the (credentialsSecretName appRepo))
                     in (now, [p]))
                  else ([], []))
           in ([ConsoleAssert (teams \<noteq> None)] @ started @
               [NewKubernetesManifest ''bootstrap-app''
                  \<lparr>manifest =
                     [JObj [(''apiVersion'', JStr ''argoproj.io/v1alpha1''),
                            (''kind'', JStr ''Application''),
                            (''metadata'',
                               JObj [(''name'',
                                      JStr (case name appRepo of
                                              Some n \<Rightarrow> n
                                            | None \<Rightarrow> ''bootstrap-apps'')),
                                     (''namespace'', opt_str (namespace (options this)))]),
                            (''spec'',
                               JObj [(''destination'',
                                      JObj [(''namespace'', JStr ''default''),
                                            (''server'', JStr ''https://kubernetes.default.svc'')]),
                                     (''project'', JStr ''default''),
                                     (''source'',
                                      JObj [(''helm'',
                                             JObj [(''valueFiles'', JArr [JStr ''values.yaml''])]),
                                            (''path'', opt_str (path appRepo)),
                                            (''repoURL'', JStr (repoUrl appRepo)),
                                            (''targetRevision'', JStr ''HEAD'')]),
                                     (''syncPolicy'', JObj [(''automated'', JObj [])])])]],
                   overwrite = True,
                   prune = True,
                   skipValidation = None\<rparr>,
                AddDependency ''bootstrap-app'' (chartNode this)],
               floating)))"

text \<open>
  One invocation, run to the end: the effects of the synchronous call, then those of the
  continuations of the promises it left.
\<close>

definition run_to_completion :: "effect list \<times> 'a promise list \<Rightarrow> effect list" where
  "run_to_completion r = fst r @ concat (map later (snd r))"

section \<open>Observing a trace\<close>

fun submitted :: "effect \<Rightarrow> jsval list" where
  "submitted (NewKubernetesManifest i props) = manifest props"
| "submitted _ = []"

definition documents :: "effect list \<Rightarrow> jsval list" where
  "documents trace = concat (map submitted trace)"

definition documents_of_kind :: "string \<Rightarrow> effect list \<Rightarrow> jsval list" where
  "documents_of_kind k trace = filter (\<lambda>d. get_prop ''kind'' d = JStr k) (documents trace)"

fun installed :: "effect \<Rightarrow> HelmChart list" where
  "installed (AddHelmChart i opts) = [HelmChart i opts]"
| "installed _ = []"

definition charts :: "effect list \<Rightarrow> HelmChart list" where
  "charts trace = concat (map installed trace)"

fun values_of :: "HelmChart \<Rightarrow> jsval" where
  "values_of (HelmChart i opts) = chart_values opts"

fun manifest_id :: "effect \<Rightarrow> string list" where
  "manifest_id (NewKubernetesManifest i props) = [i]"
| "manifest_id _ = []"

definition manifest_ids :: "effect list \<Rightarrow> string list" where
  "manifest_ids trace = concat (map manifest_id trace)"

fun dependency :: "effect \<Rightarrow> (string \<times> HelmChart option) list" where
  "dependency (AddDependency i h) = [(i, h)]"
| "dependency _ = []"

definition dependencies :: "effect list \<Rightarrow> (string \<times> HelmChart option) list" where
  "dependencies trace = concat (map dependency trace)"

text \<open>The secret names that a repositories declaration refers to.\<close>

definition referenced_secret_names :: "jsval \<Rightarrow> jsval list" where
  "referenced_secret_names v =
     (case v of
        JArr es \<Rightarrow> map (\<lambda>e. path_of e [''sshPrivateKeySecret'', ''name'']) es
      | _ \<Rightarrow> [])"

text \<open>One call of an \<^verbatim>\<open>async\<close> function, run to the end.\<close>

definition call_trace :: "effect list \<times> 'a promise \<Rightarrow> effect list" where
  "call_trace c = fst c @ later (snd c)"

section \<open>Example inputs\<close>

text \<open>
  The configuration of the scenario in the specification and two variants of it, a
  cluster, \<^verbatim>\<open>JSON.parse\<close> on the strings the examples use (the third one is
  \<^verbatim>\<open>not json\<close>), \<^verbatim>\<open>yaml.stringify\<close> on the one declaration they use, and secrets
  services that answer every request with the same string or binary payload.
\<close>

definition example_repo :: ArgoApplicationRepository where
  "example_repo =
     \<lparr>repoUrl = ''git@example.com/apps'', path = None, name = None,
      credentialsSecretName = Some ''my-secret'', credentialsType = Some TOKEN\<rparr>"

definition example_addon :: ArgoCDAddOn where
  "example_addon =
     new_ArgoCDAddOn
       (Some \<lparr>own_namespace = None, own_bootstrapRepo = Some (Some example_repo)\<rparr>)"

definition example_ssh_addon :: ArgoCDAddOn where
  "example_ssh_addon =
     new_ArgoCDAddOn
       (Some \<lparr>own_namespace = None,
              own_bootstrapRepo =
                Some (Some (example_repo\<lparr>credentialsType := Some SSH\<rparr>))\<rparr>)"

definition example_named_addon :: ArgoCDAddOn where
  "example_named_addon =
     new_ArgoCDAddOn
       (Some \<lparr>own_namespace = None,
              own_bootstrapRepo = Some (Some (example_repo\<lparr>name := Some ''apps''\<rparr>))\<rparr>)"

definition example_cluster :: ClusterInfo where
  "example_cluster = \<lparr>region = ''eu-west-1''\<rparr>"

definition example_parse :: "string \<Rightarrow> jsval option" where
  \<open>example_parse s =
     (if s = ''{"k":"v"}'' then Some (JObj [(''k'', JStr ''v'')])
      else if s = ''{"username":"bot","password":"tok123"}'' then
        Some (JObj [(''username'', JStr ''bot''), (''password'', JStr ''tok123'')])
      else None)\<close>

definition string_secret :: "string \<Rightarrow> SecretsManager" where
  "string_secret s = (\<lambda>rgn secretId. Inr (Some \<lparr>SecretString = Some s, SecretBinary = None\<rparr>))"

definition binary_secret :: "8 word list \<Rightarrow> SecretsManager" where
  "binary_secret b = (\<lambda>rgn secretId. Inr (Some \<lparr>SecretString = None, SecretBinary = Some b\<rparr>))"

definition example_yaml :: "jsval \<Rightarrow> string" where
  "example_yaml v =
     (if v = repositories_declaration example_repo then
        ''- url: git@example.com/apps'' @ [CHR 0x0A] @
        ''  sshPrivateKeySecret:'' @ [CHR 0x0A] @
        ''    name: bootstrap-repo-secret1'' @ [CHR 0x0A] @
        ''    key: sshPrivateKey'' @ [CHR 0x0A]
      else [])"

section \<open>Defining properties\<close>

lemma map_of_insert_index:
  "k \<notin> set (map fst ps) \<Longrightarrow> map_of (insert_index i k v ps) = (map_of ps)(k \<mapsto> v)"
  by (induction ps) (auto simp add: fun_upd_twist split: option.splits)

lemma map_of_define_prop: "map_of (define_prop k v ps) = (map_of ps)(k \<mapsto> v)"
proof (cases "k \<in> set (map fst ps)")
  case True
  then show ?thesis
    by (simp add: define_prop_def update_conv')
next
  case False
  then have fresh: "map_of ps k = None"
    by (simp add: map_of_eq_None_iff)
  have "map_of (ps @ [(k, v)]) = (map_of ps)(k \<mapsto> v)"
    using fresh by (auto simp add: map_add_def fun_eq_iff split: option.splits)
  with False show ?thesis
    by (simp add: define_prop_def map_of_insert_index split: option.splits)
qed

text \<open>Spreading an object adds its fields to the target's, its values taking precedence.\<close>

lemma map_of_fold_define_prop:
  "distinct (map fst qs) \<Longrightarrow>
     map_of (fold (\<lambda>(k, v). define_prop k v) qs ps) = map_of ps ++ map_of qs"
proof (induction qs arbitrary: ps)
  case Nil
  then show ?case by simp
next
  case (Cons q qs)
  obtain k v where q: "q = (k, v)" by (cases q)
  have fresh: "map_of qs k = None"
    using Cons.prems by (simp add: q map_of_eq_None_iff)
  have "map_of (fold (\<lambda>(k, v). define_prop k v) qs (define_prop k v ps)) =
      (map_of ps)(k \<mapsto> v) ++ map_of qs"
    using Cons by (simp add: map_of_define_prop)
  also have "\<dots> = map_of ps ++ map_of ((k, v) # qs)"
    using fresh by (auto simp add: map_add_def fun_eq_iff split: option.splits)
  finally have "map_of (fold (\<lambda>(k, v). define_prop k v) qs (define_prop k v ps)) =
      map_of ps ++ map_of ((k, v) # qs)" .
  then show ?case
    by (simp only: q fold_simps prod.case)
qed

text \<open>New keys that are no array indices are appended in the order they come.\<close>

lemma fold_define_prop_append:
  "distinct (map fst qs) \<Longrightarrow> set (map fst qs) \<inter> set (map fst ps) = {} \<Longrightarrow>
   list_all (\<lambda>k. array_index k = None) (map fst qs) \<Longrightarrow>
     fold (\<lambda>(k, v). define_prop k v) qs ps = ps @ qs"
proof (induction qs arbitrary: ps)
  case Nil
  then show ?case by simp
next
  case (Cons q qs)
  obtain k v where q: "q = (k, v)" by (cases q)
  have step: "define_prop k v ps = ps @ [(k, v)]"
    using Cons.prems by (auto simp add: q define_prop_def)
  have "fold (\<lambda>(k, v). define_prop k v) qs (ps @ [(k, v)]) = (ps @ [(k, v)]) @ qs"
    using Cons.prems by (intro Cons.IH) (auto simp add: q)
  then show ?case by (simp add: q step)
qed

lemma spread_url: "spread [] (JObj [(''url'', v)]) = [(''url'', v)]"
  by (simp add: spread_def define_prop_def array_index_def is_digit_def)

section \<open>Shape of the calls\<close>

lemma documents_append: "documents (a @ b) = documents a @ documents b"
  by (simp add: documents_def)

lemma documents_of_kind_append:
  "documents_of_kind k (a @ b) = documents_of_kind k a @ documents_of_kind k b"
  by (simp add: documents_of_kind_def documents_append)

lemma manifest_ids_append [simp]: "manifest_ids (a @ b) = manifest_ids a @ manifest_ids b"
  by (simp add: manifest_ids_def)

lemma manifest_ids_Nil [simp]: "manifest_ids [] = []"
  by (simp add: manifest_ids_def)

lemma dependencies_append [simp]: "dependencies (a @ b) = dependencies a @ dependencies b"
  by (simp add: dependencies_def)

lemma dependencies_Nil [simp]: "dependencies [] = []"
  by (simp add: dependencies_def)

text \<open>What \<^verbatim>\<open>getSecretValue\<close> does after it resumes is at most one line on the console.\<close>

lemma getSecretValue_later_cases:
  "later (snd (getSecretValue secretManager secretName rgn)) = [] \<or>
   (\<exists>err. later (snd (getSecretValue secretManager secretName rgn)) = [ConsoleLogError err])"
  by (auto simp add: getSecretValue_def Let_def split: sum.splits option.splits)

lemma getSecretValue_later_documents:
  "documents (later (snd (getSecretValue secretManager secretName rgn))) = []"
  using getSecretValue_later_cases [of secretManager secretName rgn]
  by (auto simp add: documents_def)

text \<open>Before it suspends, \<^verbatim>\<open>createSecretKey\<close> has set up the identity and sent the request.\<close>

lemma createSecretKey_now:
  "fst (createSecretKey secretManager JSON_parse this clusterInfo secretName) =
     (case bootstrapRepo (options this) of
        None \<Rightarrow> []
      | Some appRepo \<Rightarrow>
          [AddServiceAccount ''argo-cd-server'' ''argocd-server'' (namespace (options this)),
           AddManagedPolicy ''argo-cd-server'' ''SecretsManagerReadWrite'',
           GetSecretValue (region clusterInfo) secretName])"
  by (simp add: createSecretKey_def getSecretValue_def Let_def split: option.splits)

lemma createSecretKey_now_documents:
  "documents (fst (createSecretKey secretManager JSON_parse this clusterInfo secretName)) = []"
  by (auto simp add: createSecretKey_now documents_def split: option.splits)

text \<open>The three ways \<^verbatim>\<open>createSecretKey\<close> ends once the secret lookup has settled.\<close>

lemma createSecretKey_rejected:
  assumes "settled (snd (getSecretValue secretManager secretName (region clusterInfo))) = Inl err"
    and "bootstrapRepo (options this) = Some appRepo"
  shows "snd (createSecretKey secretManager JSON_parse this clusterInfo secretName) =
           Promise (later (snd (getSecretValue secretManager secretName (region clusterInfo))))
             (Inl err)"
  using assms by (simp add: createSecretKey_def Let_def split_beta)

lemma createSecretKey_malformed:
  assumes "settled (snd (getSecretValue secretManager secretName (region clusterInfo))) =
             Inr secretValue"
    and "bootstrapRepo (options this) = Some appRepo"
    and "credentialsType appRepo = Some USERNAME \<or> credentialsType appRepo = Some TOKEN"
    and "JSON_parse secretValue = None"
  shows "snd (createSecretKey secretManager JSON_parse this clusterInfo secretName) =
           Promise (later (snd (getSecretValue secretManager secretName (region clusterInfo))))
             (Inl SyntaxError)"
  using assms by (auto simp add: createSecretKey_def Let_def split_beta)

lemma createSecretKey_fulfilled:
  assumes "settled (snd (getSecretValue secretManager secretName (region clusterInfo))) =
             Inr secretValue"
    and "bootstrapRepo (options this) = Some appRepo"
    and "(case credentialsType appRepo of
            Some SSH \<Rightarrow>
              Inr (object_spread [JObj [(''url'', JStr (repoUrl appRepo))],
                                  JObj [(''sshPrivateKey'', JStr secretValue)]])
          | Some USERNAME \<Rightarrow>
              (case JSON_parse secretValue of
                 None \<Rightarrow> Inl SyntaxError
               | Some parsed \<Rightarrow>
                   Inr (object_spread [JObj [(''url'', JStr (repoUrl appRepo))], parsed]))
          | Some TOKEN \<Rightarrow>
              (case JSON_parse secretValue of
                 None \<Rightarrow> Inl SyntaxError
               | Some parsed \<Rightarrow>
                   Inr (object_spread [JObj [(''url'', JStr (repoUrl appRepo))], parsed]))
          | None \<Rightarrow> Inr [(''url'', JStr (repoUrl appRepo))]) = Inr credentials"
  shows "settled (snd (createSecretKey secretManager JSON_parse this clusterInfo secretName)) =
           Inr () \<and>
         documents (later (snd
           (createSecretKey secretManager JSON_parse this clusterInfo secretName))) =
           [JObj [(''apiVersion'', JStr ''v1''),
                  (''kind'', JStr ''Secret''),
                  (''metadata'',
                     JObj [(''name'',
                            JStr (case name appRepo of
                                    Some n \<Rightarrow> n
                                  | None \<Rightarrow> ''bootstrap-repo-secret'')),
                           (''namespace'', opt_str (namespace (options this))),
                           (''labels'',
                            JObj [(''argocd.argoproj.io/secret-type'', JStr ''repository'')])]),
                  (''stringData'', JObj credentials)]]"
  using assms getSecretValue_later_documents [of secretManager secretName "region clusterInfo"]
  by (simp add: createSecretKey_def Let_def split_beta documents_append)
    (simp add: documents_def)

lemma createSecretKey_later_summary:
  assumes "bootstrapRepo (options this) = Some appRepo"
  shows "map (\<lambda>d. (get_prop ''kind'' d, path_of d [''metadata'', ''name'']))
           (documents (later (snd
              (createSecretKey secretManager JSON_parse this clusterInfo secretName)))) =
         (if settled (snd (createSecretKey secretManager JSON_parse this clusterInfo secretName)) =
               Inr ()
          then [(JStr ''Secret'',
                 JStr (case name appRepo of Some n \<Rightarrow> n | None \<Rightarrow> ''bootstrap-repo-secret''))]
          else [])"
  using assms getSecretValue_later_documents [of secretManager secretName "region clusterInfo"]
  by (simp add: createSecretKey_def Let_def split_beta documents_append
      split: sum.splits option.splits credentialsType.splits)
    (simp add: documents_def get_prop_def)

lemma createSecretKey_later_manifest_ids:
  assumes "bootstrapRepo (options this) = Some appRepo"
  shows "manifest_ids (later (snd
           (createSecretKey secretManager JSON_parse this clusterInfo secretName))) =
         (if settled (snd (createSecretKey secretManager JSON_parse this clusterInfo secretName)) =
               Inr ()
          then [''argo-bootstrap-secret''] else [])"
  using assms getSecretValue_later_cases [of secretManager secretName "region clusterInfo"]
  by (auto simp add: createSecretKey_def Let_def split_beta manifest_ids_def
      split: sum.splits option.splits credentialsType.splits)

lemma createSecretKey_later_dependencies:
  assumes "bootstrapRepo (options this) = Some appRepo"
  shows "dependencies (later (snd
           (createSecretKey secretManager JSON_parse this clusterInfo secretName))) =
         (if settled (snd (createSecretKey secretManager JSON_parse this clusterInfo secretName)) =
               Inr ()
          then [(''argo-bootstrap-secret'', chartNode this)] else [])"
  using assms getSecretValue_later_cases [of secretManager secretName "region clusterInfo"]
  by (auto simp add: createSecretKey_def Let_def split_beta dependencies_def
      split: sum.splits option.splits credentialsType.splits)

text \<open>Whatever \<^verbatim>\<open>createSecretKey\<close> submits after resuming is of kind Secret.\<close>

lemma createSecretKey_later_applications:
  "documents_of_kind ''Application''
     (later (snd (createSecretKey secretManager JSON_parse this clusterInfo secretName))) = []"
proof (cases "bootstrapRepo (options this)")
  case None
  then show ?thesis
    by (simp add: createSecretKey_def documents_of_kind_def documents_def)
next
  case (Some appRepo)
  have quiet: "documents_of_kind ''Application''
      (later (snd (getSecretValue secretManager secretName (region clusterInfo)))) = []"
    by (simp add: documents_of_kind_def getSecretValue_later_documents)
  show ?thesis
    using Some quiet
    by (simp add: createSecretKey_def Let_def split_beta documents_of_kind_append
        split: sum.splits)
      (simp add: documents_of_kind_def documents_def get_prop_def)
qed

lemma createSecretKey_later_secrets:
  "documents_of_kind ''Secret''
     (later (snd (createSecretKey secretManager JSON_parse this clusterInfo secretName))) =
   documents (later (snd (createSecretKey secretManager JSON_parse this clusterInfo secretName)))"
proof (cases "bootstrapRepo (options this)")
  case None
  then show ?thesis
    by (simp add: createSecretKey_def documents_of_kind_def documents_def)
next
  case (Some appRepo)
  have quiet: "documents
      (later (snd (getSecretValue secretManager secretName (region clusterInfo)))) = []"
    by (rule getSecretValue_later_documents)
  show ?thesis
    using Some quiet
    by (simp add: createSecretKey_def Let_def split_beta documents_of_kind_def documents_append
        split: sum.splits)
      (simp add: documents_def get_prop_def)
qed

text \<open>\<^verbatim>\<open>postDeploy\<close> with a bootstrap repository.\<close>

lemma postDeploy_floating:
  assumes "bootstrapRepo (options this) = Some appRepo"
  shows "snd (postDeploy secretManager JSON_parse this clusterInfo teams) =
           (if truthy (credentialsSecretName appRepo)
            then [snd (createSecretKey secretManager JSON_parse this clusterInfo
                         (the (credentialsSecretName appRepo)))]
            else [])"
  using assms by (simp add: postDeploy_def Let_def split_beta)

lemma postDeploy_settled:
  assumes "bootstrapRepo (options this) = Some appRepo"
  shows "(map settled (snd (postDeploy secretManager JSON_parse this clusterInfo teams)) =
            [Inr ()]) =
         (truthy (credentialsSecretName appRepo) \<and>
          settled (snd (createSecretKey secretManager JSON_parse this clusterInfo
                          (the (credentialsSecretName appRepo)))) = Inr ())"
  using assms by (simp add: postDeploy_floating)

lemma postDeploy_now_documents:
  assumes "bootstrapRepo (options this) = Some appRepo"
  shows "documents (fst (postDeploy secretManager JSON_parse this clusterInfo teams)) =
     [JObj [(''apiVersion'', JStr ''argoproj.io/v1alpha1''),
            (''kind'', JStr ''Application''),
            (''metadata'',
               JObj [(''name'',
                      JStr (case name appRepo of Some n \<Rightarrow> n | None \<Rightarrow> ''bootstrap-apps'')),
                     (''namespace'', opt_str (namespace (options this)))]),
            (''spec'',
               JObj [(''destination'',
                      JObj [(''namespace'', JStr ''default''),
                            (''server'', JStr ''https://kubernetes.default.svc'')]),
                     (''project'', JStr ''default''),
                     (''source'',
                      JObj [(''helm'', JObj [(''valueFiles'', JArr [JStr ''values.yaml''])]),
                            (''path'', opt_str (path appRepo)),
                            (''repoURL'', JStr (repoUrl appRepo)),
                            (''targetRevision'', JStr ''HEAD'')]),
                     (''syncPolicy'', JObj [(''automated'', JObj [])])])]]"
  using assms createSecretKey_now_documents
    [of secretManager JSON_parse this clusterInfo "the (credentialsSecretName appRepo)"]
  by (simp add: postDeploy_def Let_def split_beta documents_append)
    (simp add: documents_def)

text \<open>
  When \<^verbatim>\<open>postDeploy\<close> returns, the Application has been submitted and nothing else,
  whatever the secrets service will answer.
\<close>

lemma postDeploy_does_not_wait:
  assumes "bootstrapRepo (options this) = Some appRepo"
  shows "map (get_prop ''kind'')
           (documents (fst (postDeploy secretManager JSON_parse this clusterInfo teams))) =
         [JStr ''Application'']"
  by (simp add: postDeploy_now_documents [OF assms] get_prop_def)

lemma postDeploy_now_manifest_ids:
  assumes "bootstrapRepo (options this) = Some appRepo"
  shows "manifest_ids (fst (postDeploy secretManager JSON_parse this clusterInfo teams)) =
           [''bootstrap-app'']"
  using assms
  by (simp add: postDeploy_def Let_def split_beta manifest_ids_def createSecretKey_now)

lemma postDeploy_now_dependencies:
  assumes "bootstrapRepo (options this) = Some appRepo"
  shows "dependencies (fst (postDeploy secretManager JSON_parse this clusterInfo teams)) =
           [(''bootstrap-app'', chartNode this)]"
  using assms
  by (simp add: postDeploy_def Let_def split_beta dependencies_def createSecretKey_now)

lemma postDeploy_applications:
  assumes "bootstrapRepo (options this) = Some appRepo"
  shows "documents_of_kind ''Application''
           (run_to_completion (postDeploy secretManager JSON_parse this clusterInfo teams)) =
         documents (fst (postDeploy secretManager JSON_parse this clusterInfo teams))"
proof -
  have now: "documents_of_kind ''Application''
      (fst (postDeploy secretManager JSON_parse this clusterInfo teams)) =
      documents (fst (postDeploy secretManager JSON_parse this clusterInfo teams))"
    by (simp add: documents_of_kind_def postDeploy_now_documents [OF assms] get_prop_def)
  show ?thesis
    by (simp add: run_to_completion_def documents_of_kind_append now
        postDeploy_floating [OF assms] createSecretKey_later_applications)
      (simp add: documents_of_kind_def documents_def)
qed

lemma postDeploy_secrets:
  assumes "bootstrapRepo (options this) = Some appRepo"
  shows "documents_of_kind ''Secret''
           (run_to_completion (postDeploy secretManager JSON_parse this clusterInfo teams)) =
         (if truthy (credentialsSecretName appRepo)
          then documents (later (snd (createSecretKey secretManager JSON_parse this clusterInfo
                                        (the (credentialsSecretName appRepo)))))
          else [])"
proof -
  have now: "documents_of_kind ''Secret''
      (fst (postDeploy secretManager JSON_parse this clusterInfo teams)) = []"
    by (simp add: documents_of_kind_def postDeploy_now_documents [OF assms] get_prop_def)
  show ?thesis
    by (simp add: run_to_completion_def documents_of_kind_append now
        postDeploy_floating [OF assms] createSecretKey_later_secrets)
      (simp add: documents_of_kind_def documents_def)
qed

lemma deploy_options: "options (fst (deploy yaml_stringify this clusterInfo)) = options this"
  by (simp add: deploy_def Let_def split_beta)

lemma deploy_handle:
  "map Some (charts (snd (deploy yaml_stringify this clusterInfo))) =
     [chartNode (fst (deploy yaml_stringify this clusterInfo))]"
  by (simp add: deploy_def Let_def split_beta charts_def split: option.splits)

section \<open>Claims\<close>

subsection \<open>C1: the secret sub-operation and the Application\<close>

text \<open>
  C1 says that \<^verbatim>\<open>postDeploy\<close> awaits \<^verbatim>\<open>createSecretKey\<close> before it submits the
  Application manifest, so that a failing secret sub-operation leaves no Application
  submitted. The code calls \<^verbatim>\<open>createSecretKey\<close> without \<^verbatim>\<open>await\<close>. With the scenario's
  configuration and a secret stored as binary, the promise of the sub-operation is
  rejected, and yet the Application document has been submitted, already when
  \<^verbatim>\<open>postDeploy\<close> returns; it is the only document of the invocation. With a secret that
  can be read, the Application manifest is created first and the Secret manifest after it.
\<close>

theorem application_submitted_though_secret_fails:
  "map settled
     (snd (postDeploy (binary_secret [1]) example_parse
             (fst (deploy example_yaml example_addon example_cluster))
             example_cluster (Some []))) =
     [Inl (Error ''Invalid secret format for my-secret. Expected string value, received binary.'')] \<and>
   map (get_prop ''kind'')
     (documents
        (fst (postDeploy (binary_secret [1]) example_parse
                (fst (deploy example_yaml example_addon example_cluster))
                example_cluster (Some [])))) = [JStr ''Application''] \<and>
   map (get_prop ''kind'')
     (documents
        (run_to_completion
           (postDeploy (binary_secret [1]) example_parse
              (fst (deploy example_yaml example_addon example_cluster))
              example_cluster (Some [])))) = [JStr ''Application''] \<and>
   manifest_ids
     (run_to_completion
        (postDeploy (string_secret ''not json'')
           example_parse
           (fst (deploy example_yaml example_ssh_addon example_cluster))
           example_cluster (Some []))) = [''bootstrap-app'', ''argo-bootstrap-secret'']"
  by (simp add: example_addon_def example_ssh_addon_def new_ArgoCDAddOn_def example_repo_def
      binary_secret_def string_secret_def postDeploy_def createSecretKey_def getSecretValue_def
      deploy_def Let_def run_to_completion_def documents_def get_prop_def manifest_ids_def)

subsection \<open>C2: the repositories value of the chart\<close>

text \<open>
  C2: the chart that \<^verbatim>\<open>deploy\<close> installs carries, under
  \<^verbatim>\<open>server.config.repositories\<close>, the empty string when there is no bootstrap
  repository, and otherwise the YAML rendering of the repositories declaration. That
  declaration is a list of one element, with the repository's URL and a reference to the
  key \<^verbatim>\<open>sshPrivateKey\<close> of the secret \<^verbatim>\<open>bootstrap-repo-secret1\<close>, whatever the
  configured secret name and credentials type are.
\<close>

theorem deploy_repositories:
  "map (\<lambda>h. path_of (values_of h) [''server'', ''config'', ''repositories''])
     (charts (snd (deploy yaml_stringify this clusterInfo))) =
     [JStr (case bootstrapRepo (options this) of
              None \<Rightarrow> ''''
            | Some r \<Rightarrow> yaml_stringify (repositories_declaration r))] \<and>
   repositories_declaration r =
     JArr [JObj [(''url'', JStr (repoUrl r)),
                 (''sshPrivateKeySecret'',
                    JObj [(''name'', JStr ''bootstrap-repo-secret1''),
                          (''key'', JStr ''sshPrivateKey'')])]] \<and>
   repositories_declaration (r\<lparr>credentialsSecretName := n, credentialsType := t\<rparr>) =
     repositories_declaration r"
  by (simp add: deploy_def Let_def charts_def get_prop_def repositories_declaration_def
      split: option.splits)

theorem deploy_repositories_witness:
  "map (\<lambda>h. path_of (values_of h) [''server'', ''config'', ''repositories''])
     (charts (snd (deploy example_yaml example_addon example_cluster))) =
     [JStr (''- url: git@example.com/apps'' @ [CHR 0x0A] @
            ''  sshPrivateKeySecret:'' @ [CHR 0x0A] @
            ''    name: bootstrap-repo-secret1'' @ [CHR 0x0A] @
            ''    key: sshPrivateKey'' @ [CHR 0x0A])] \<and>
   map (\<lambda>h. path_of (values_of h) [''server'', ''config'', ''repositories''])
     (charts (snd (deploy example_yaml (new_ArgoCDAddOn None) example_cluster))) =
     [JStr '''']"
  using deploy_repositories [of example_yaml example_addon example_cluster example_repo]
    deploy_repositories [of example_yaml "new_ArgoCDAddOn None" example_cluster example_repo]
  by (simp add: example_addon_def new_ArgoCDAddOn_def argoDefaults_def example_yaml_def)

subsection \<open>C3: a secret stored as binary\<close>

text \<open>
  C3: when the secrets service answers with a binary payload and no (or an empty) string,
  \<^verbatim>\<open>getSecretValue\<close> fails with an error whose message names the secret and says that a
  string was expected and binary received; \<^verbatim>\<open>createSecretKey\<close> fails with the same
  error, and no document is submitted in that call.
\<close>

theorem binary_secret_rejected:
  assumes "secretManager (region clusterInfo) secretName = Inr (Some response)"
    and "\<not> truthy (SecretString response)"
    and "SecretBinary response = Some blob"
    and "bootstrapRepo (options this) = Some appRepo"
  shows "settled (snd (getSecretValue secretManager secretName (region clusterInfo))) =
           Inl (Error (''Invalid secret format for '' @ secretName @
                       ''. Expected string value, received binary.'')) \<and>
         settled (snd (createSecretKey secretManager JSON_parse this clusterInfo secretName)) =
           Inl (Error (''Invalid secret format for '' @ secretName @
                       ''. Expected string value, received binary.'')) \<and>
         documents (call_trace
           (createSecretKey secretManager JSON_parse this clusterInfo secretName)) = []"
proof -
  let ?err = "Error (''Invalid secret format for '' @ secretName @
                     ''. Expected string value, received binary.'')"
  have fetch: "settled (snd (getSecretValue secretManager secretName (region clusterInfo))) =
      Inl ?err"
    using assms(1-3) by (simp add: getSecretValue_def Let_def)
  have key: "snd (createSecretKey secretManager JSON_parse this clusterInfo secretName) =
      Promise (later (snd (getSecretValue secretManager secretName (region clusterInfo))))
        (Inl ?err)"
    using fetch assms(4) by (rule createSecretKey_rejected)
  have "documents (call_trace
      (createSecretKey secretManager JSON_parse this clusterInfo secretName)) = []"
    by (simp add: call_trace_def documents_append createSecretKey_now_documents key
        getSecretValue_later_documents)
  with fetch key show ?thesis by simp
qed

theorem binary_secret_rejected_witness:
  "binary_secret [1] (region example_cluster) ''my-secret'' =
     Inr (Some \<lparr>SecretString = None, SecretBinary = Some [1]\<rparr>) \<and>
   \<not> truthy (SecretString \<lparr>SecretString = None, SecretBinary = Some [1]\<rparr>) \<and>
   SecretBinary \<lparr>SecretString = None, SecretBinary = Some [1]\<rparr> = Some [1] \<and>
   bootstrapRepo (options example_addon) = Some example_repo \<and>
   settled (snd (createSecretKey (binary_secret [1]) example_parse example_addon
                   example_cluster ''my-secret'')) =
     Inl (Error ''Invalid secret format for my-secret. Expected string value, received binary.'') \<and>
   documents (call_trace (createSecretKey (binary_secret [1]) example_parse example_addon
                            example_cluster ''my-secret'')) = []"
  using binary_secret_rejected
    [of "binary_secret [1]" example_cluster "''my-secret''"
        "\<lparr>SecretString = None, SecretBinary = Some [1]\<rparr>" "[1]" example_addon example_repo
        example_parse]
  by (simp add: binary_secret_def example_addon_def new_ArgoCDAddOn_def)

subsection \<open>C4: credentials that are not JSON\<close>

text \<open>
  C4: with credentials type USERNAME or TOKEN, a fetched secret value that
  \<^verbatim>\<open>JSON.parse\<close> rejects makes \<^verbatim>\<open>createSecretKey\<close> fail with the SyntaxError, and no
  document is submitted in that call.
\<close>

theorem malformed_credentials_rejected:
  assumes "bootstrapRepo (options this) = Some appRepo"
    and "credentialsType appRepo = Some USERNAME \<or> credentialsType appRepo = Some TOKEN"
    and "settled (snd (getSecretValue secretManager secretName (region clusterInfo))) =
           Inr secretValue"
    and "JSON_parse secretValue = None"
  shows "settled (snd (createSecretKey secretManager JSON_parse this clusterInfo secretName)) =
           Inl SyntaxError \<and>
         documents (call_trace
           (createSecretKey secretManager JSON_parse this clusterInfo secretName)) = []"
proof -
  have "snd (createSecretKey secretManager JSON_parse this clusterInfo secretName) =
      Promise (later (snd (getSecretValue secretManager secretName (region clusterInfo))))
        (Inl SyntaxError)"
    using assms(3,1,2,4) by (rule createSecretKey_malformed)
  then show ?thesis
    by (simp add: call_trace_def documents_append createSecretKey_now_documents
        getSecretValue_later_documents)
qed

theorem malformed_credentials_rejected_witness:
  "bootstrapRepo (options example_addon) = Some example_repo \<and>
   credentialsType example_repo = Some TOKEN \<and>
   settled (snd (getSecretValue (string_secret ''not json'') ''my-secret''
                   (region example_cluster))) = Inr ''not json'' \<and>
   example_parse ''not json'' = None \<and>
   settled (snd (createSecretKey (string_secret ''not json'') example_parse example_addon
                   example_cluster ''my-secret'')) = Inl SyntaxError \<and>
   documents (call_trace (createSecretKey (string_secret ''not json'') example_parse
                            example_addon example_cluster ''my-secret'')) = []"
  using malformed_credentials_rejected
    [of example_addon example_repo "string_secret ''not json''" "''my-secret''"
        example_cluster "''not json''" example_parse]
  by (simp add: string_secret_def example_addon_def new_ArgoCDAddOn_def example_repo_def
      example_parse_def getSecretValue_def)

subsection \<open>C5: the Secret of an SSH repository\<close>

text \<open>
  C5: with credentials type SSH and a secret value that could be fetched,
  \<^verbatim>\<open>createSecretKey\<close> succeeds and submits one document, whose \<^verbatim>\<open>stringData\<close> has
  exactly the two fields \<^verbatim>\<open>url\<close>, the repository's URL, and \<^verbatim>\<open>sshPrivateKey\<close>, the
  fetched value as it is.
\<close>

theorem ssh_stringData:
  assumes "bootstrapRepo (options this) = Some appRepo"
    and "credentialsType appRepo = Some SSH"
    and "settled (snd (getSecretValue secretManager secretName (region clusterInfo))) =
           Inr secretValue"
  shows "settled (snd (createSecretKey secretManager JSON_parse this clusterInfo secretName)) =
           Inr () \<and>
         map (get_prop ''stringData'')
           (documents (call_trace
              (createSecretKey secretManager JSON_parse this clusterInfo secretName))) =
           [JObj [(''url'', JStr (repoUrl appRepo)), (''sshPrivateKey'', JStr secretValue)]]"
proof -
  have "settled (snd (createSecretKey secretManager JSON_parse this clusterInfo secretName)) =
      Inr () \<and>
    documents (later (snd
      (createSecretKey secretManager JSON_parse this clusterInfo secretName))) =
      [JObj [(''apiVersion'', JStr ''v1''),
             (''kind'', JStr ''Secret''),
             (''metadata'',
                JObj [(''name'',
                       JStr (case name appRepo of
                               Some n \<Rightarrow> n
                             | None \<Rightarrow> ''bootstrap-repo-secret'')),
                      (''namespace'', opt_str (namespace (options this))),
                      (''labels'',
                       JObj [(''argocd.argoproj.io/secret-type'', JStr ''repository'')])]),
             (''stringData'',
                JObj (object_spread [JObj [(''url'', JStr (repoUrl appRepo))],
                                     JObj [(''sshPrivateKey'', JStr secretValue)]]))]]"
    using assms(3,1) by (rule createSecretKey_fulfilled) (simp add: assms(2))
  then show ?thesis
    by (simp add: call_trace_def documents_append createSecretKey_now_documents get_prop_def
        object_spread_def spread_url)
      (simp add: spread_def define_prop_def array_index_def is_digit_def)
qed

theorem ssh_stringData_witness:
  "bootstrapRepo (options example_ssh_addon) =
     Some (example_repo\<lparr>credentialsType := Some SSH\<rparr>) \<and>
   credentialsType (example_repo\<lparr>credentialsType := Some SSH\<rparr>) = Some SSH \<and>
   settled (snd (getSecretValue (string_secret ''PRIVATE KEY'') ''my-secret''
                   (region example_cluster))) = Inr ''PRIVATE KEY'' \<and>
   map (get_prop ''stringData'')
     (documents (call_trace
        (createSecretKey (string_secret ''PRIVATE KEY'') example_parse example_ssh_addon
           example_cluster ''my-secret''))) =
     [JObj [(''url'', JStr ''git@example.com/apps''), (''sshPrivateKey'', JStr ''PRIVATE KEY'')]]"
  using ssh_stringData
    [of example_ssh_addon "example_repo\<lparr>credentialsType := Some SSH\<rparr>"
        "string_secret ''PRIVATE KEY''" "''my-secret''" example_cluster "''PRIVATE KEY''"
        example_parse]
  by (simp add: string_secret_def example_ssh_addon_def new_ArgoCDAddOn_def example_repo_def
      getSecretValue_def)

subsection \<open>C6: the Secret of a repository with JSON credentials\<close>

text \<open>
  C6: with credentials type USERNAME or TOKEN and a fetched secret value that parses to
  an object, \<^verbatim>\<open>createSecretKey\<close> succeeds and submits one document, whose
  \<^verbatim>\<open>stringData\<close> is \<^verbatim>\<open>url\<close>, the repository's URL, merged with every field of the
  parsed object, whatever their number and their values: its fields are those of the
  parsed object and \<^verbatim>\<open>url\<close>, and as in an object literal a parsed field named
  \<^verbatim>\<open>url\<close> takes the place of the repository's. When the parsed object has no field
  \<^verbatim>\<open>url\<close> and no array index among its keys, \<^verbatim>\<open>stringData\<close> enumerates \<^verbatim>\<open>url\<close>
  first and then the parsed fields in their order.
\<close>

theorem json_credentials_stringData:
  assumes "bootstrapRepo (options this) = Some appRepo"
    and "credentialsType appRepo = Some USERNAME \<or> credentialsType appRepo = Some TOKEN"
    and "settled (snd (getSecretValue secretManager secretName (region clusterInfo))) =
           Inr secretValue"
    and "JSON_parse secretValue = Some (JObj ps)"
    and "distinct (map fst ps)"
  shows "settled (snd (createSecretKey secretManager JSON_parse this clusterInfo secretName)) =
           Inr () \<and>
         map (\<lambda>d. field_map (get_prop ''stringData'' d))
           (documents (call_trace
              (createSecretKey secretManager JSON_parse this clusterInfo secretName))) =
           [[''url'' \<mapsto> JStr (repoUrl appRepo)] ++ field_map (JObj ps)] \<and>
         (''url'' \<notin> set (map fst ps) \<and> list_all (\<lambda>k. array_index k = None) (map fst ps) \<longrightarrow>
            map (get_prop ''stringData'')
              (documents (call_trace
                 (createSecretKey secretManager JSON_parse this clusterInfo secretName))) =
              [JObj ((''url'', JStr (repoUrl appRepo)) # ps)])"
proof -
  let ?merged = "object_spread [JObj [(''url'', JStr (repoUrl appRepo))], JObj ps]"
  have switch: "(case credentialsType appRepo of
            Some SSH \<Rightarrow>
              Inr (object_spread [JObj [(''url'', JStr (repoUrl appRepo))],
                                  JObj [(''sshPrivateKey'', JStr secretValue)]])
          | Some USERNAME \<Rightarrow>
              (case JSON_parse secretValue of
                 None \<Rightarrow> Inl SyntaxError
               | Some parsed \<Rightarrow>
                   Inr (object_spread [JObj [(''url'', JStr (repoUrl appRepo))], parsed]))
          | Some TOKEN \<Rightarrow>
              (case JSON_parse secretValue of
                 None \<Rightarrow> Inl SyntaxError
               | Some parsed \<Rightarrow>
                   Inr (object_spread [JObj [(''url'', JStr (repoUrl appRepo))], parsed]))
          | None \<Rightarrow> Inr [(''url'', JStr (repoUrl appRepo))]) = Inr ?merged"
    using assms(2,4) by auto
  have unfolded: "?merged =
      fold (\<lambda>(k, v). define_prop k v) ps [(''url'', JStr (repoUrl appRepo))]"
    by (simp add: object_spread_def spread_url) (simp add: spread_def)
  have as_map: "field_map (JObj ?merged) =
      [''url'' \<mapsto> JStr (repoUrl appRepo)] ++ field_map (JObj ps)"
    using map_of_fold_define_prop [OF assms(5), of "[(''url'', JStr (repoUrl appRepo))]"]
    by (simp add: field_map_def unfolded)
  have as_list: "''url'' \<notin> set (map fst ps) \<and>
      list_all (\<lambda>k. array_index k = None) (map fst ps) \<longrightarrow>
      ?merged = (''url'', JStr (repoUrl appRepo)) # ps"
    using fold_define_prop_append [OF assms(5), of "[(''url'', JStr (repoUrl appRepo))]"]
    by (simp add: unfolded)
  have fulfilled: "settled (snd
      (createSecretKey secretManager JSON_parse this clusterInfo secretName)) = Inr () \<and>
    documents (later (snd
      (createSecretKey secretManager JSON_parse this clusterInfo secretName))) =
      [JObj [(''apiVersion'', JStr ''v1''),
             (''kind'', JStr ''Secret''),
             (''metadata'',
                JObj [(''name'',
                       JStr (case name appRepo of
                               Some n \<Rightarrow> n
                             | None \<Rightarrow> ''bootstrap-repo-secret'')),
                      (''namespace'', opt_str (namespace (options this))),
                      (''labels'',
                       JObj [(''argocd.argoproj.io/secret-type'', JStr ''repository'')])]),
             (''stringData'', JObj ?merged)]]"
    using assms(3,1) switch by (rule createSecretKey_fulfilled)
  have read: "map (get_prop ''stringData'')
      (documents (call_trace
         (createSecretKey secretManager JSON_parse this clusterInfo secretName))) =
      [JObj ?merged]"
    using fulfilled
    by (simp add: call_trace_def documents_append createSecretKey_now_documents get_prop_def)
  have "map (\<lambda>d. field_map (get_prop ''stringData'' d))
      (documents (call_trace
         (createSecretKey secretManager JSON_parse this clusterInfo secretName))) =
      map field_map (map (get_prop ''stringData'')
        (documents (call_trace
           (createSecretKey secretManager JSON_parse this clusterInfo secretName))))"
    by (simp add: comp_def)
  also have "\<dots> = [[''url'' \<mapsto> JStr (repoUrl appRepo)] ++ field_map (JObj ps)]"
    by (simp only: read list.map as_map)
  finally have fields: "map (\<lambda>d. field_map (get_prop ''stringData'' d))
      (documents (call_trace
         (createSecretKey secretManager JSON_parse this clusterInfo secretName))) =
      [[''url'' \<mapsto> JStr (repoUrl appRepo)] ++ field_map (JObj ps)]" .
  have listed: "''url'' \<notin> set (map fst ps) \<and>
      list_all (\<lambda>k. array_index k = None) (map fst ps) \<longrightarrow>
      map (get_prop ''stringData'')
        (documents (call_trace
           (createSecretKey secretManager JSON_parse this clusterInfo secretName))) =
        [JObj ((''url'', JStr (repoUrl appRepo)) # ps)]"
    using as_list by (simp only: read) simp
  from fulfilled fields listed show ?thesis
    by (simp only: simp_thms)
qed

theorem json_credentials_stringData_witness:
  \<open>bootstrapRepo (options example_addon) = Some example_repo \<and>
   credentialsType example_repo = Some TOKEN \<and>
   settled (snd (getSecretValue (string_secret ''{"username":"bot","password":"tok123"}'')
                   ''my-secret'' (region example_cluster))) =
     Inr ''{"username":"bot","password":"tok123"}'' \<and>
   example_parse ''{"username":"bot","password":"tok123"}'' =
     Some (JObj [(''username'', JStr ''bot''), (''password'', JStr ''tok123'')]) \<and>
   distinct (map fst [(''username'', JStr ''bot''), (''password'', JStr ''tok123'')]) \<and>
   ''url'' \<notin> set (map fst [(''username'', JStr ''bot''), (''password'', JStr ''tok123'')]) \<and>
   list_all (\<lambda>k. array_index k = None)
     (map fst [(''username'', JStr ''bot''), (''password'', JStr ''tok123'')]) \<and>
   settled (snd (createSecretKey (string_secret ''{"username":"bot","password":"tok123"}'')
                   example_parse example_addon example_cluster ''my-secret'')) = Inr () \<and>
   map (get_prop ''stringData'')
     (documents (call_trace
        (createSecretKey (string_secret ''{"username":"bot","password":"tok123"}'')
           example_parse example_addon example_cluster ''my-secret''))) =
     [JObj [(''url'', JStr ''git@example.com/apps''), (''username'', JStr ''bot''),
            (''password'', JStr ''tok123'')]]\<close>
  using json_credentials_stringData
    [of example_addon example_repo
        \<open>string_secret ''{"username":"bot","password":"tok123"}''\<close> "''my-secret''"
        example_cluster \<open>''{"username":"bot","password":"tok123"}''\<close> example_parse
        "[(''username'', JStr ''bot''), (''password'', JStr ''tok123'')]"]
  by (simp add: string_secret_def example_addon_def new_ArgoCDAddOn_def example_repo_def
      example_parse_def getSecretValue_def array_index_def is_digit_def)

subsection \<open>C7: manifests depend on the chart\<close>

text \<open>
  C7: after \<^verbatim>\<open>deploy\<close>, the add-on's \<^verbatim>\<open>chartNode\<close> is the chart that \<^verbatim>\<open>deploy\<close>
  installed. An invocation of \<^verbatim>\<open>postDeploy\<close> with a bootstrap repository, run to the
  end, creates the Application manifest, and the Secret manifest when the secret
  sub-operation succeeds; the dependencies it declares are exactly one per manifest
  created, each on that chart.
\<close>

theorem manifests_depend_on_install:
  assumes "bootstrapRepo (options this) = Some appRepo"
  shows "map Some (charts (snd (deploy yaml_stringify this clusterInfo))) =
           [chartNode (fst (deploy yaml_stringify this clusterInfo))] \<and>
         manifest_ids (run_to_completion
           (postDeploy secretManager JSON_parse (fst (deploy yaml_stringify this clusterInfo))
              clusterInfo teams)) =
           ''bootstrap-app'' #
           (if map settled (snd (postDeploy secretManager JSON_parse
                                   (fst (deploy yaml_stringify this clusterInfo))
                                   clusterInfo teams)) = [Inr ()]
            then [''argo-bootstrap-secret''] else []) \<and>
         dependencies (run_to_completion
           (postDeploy secretManager JSON_parse (fst (deploy yaml_stringify this clusterInfo))
              clusterInfo teams)) =
           map (\<lambda>i. (i, chartNode (fst (deploy yaml_stringify this clusterInfo))))
             (manifest_ids (run_to_completion
                (postDeploy secretManager JSON_parse
                   (fst (deploy yaml_stringify this clusterInfo)) clusterInfo teams)))"
proof -
  let ?addon = "fst (deploy yaml_stringify this clusterInfo)"
  let ?post = "postDeploy secretManager JSON_parse ?addon clusterInfo teams"
  have repo: "bootstrapRepo (options ?addon) = Some appRepo"
    using assms by (simp add: deploy_options)
  have ids: "manifest_ids (run_to_completion ?post) =
      ''bootstrap-app'' #
      (if map settled (snd ?post) = [Inr ()] then [''argo-bootstrap-secret''] else [])"
    using postDeploy_now_manifest_ids [OF repo, of secretManager JSON_parse clusterInfo teams]
      createSecretKey_later_manifest_ids [OF repo, of secretManager JSON_parse clusterInfo
        "the (credentialsSecretName appRepo)"]
    by (simp add: run_to_completion_def postDeploy_floating [OF repo])
  have deps: "dependencies (run_to_completion ?post) =
      (''bootstrap-app'', chartNode ?addon) #
      (if map settled (snd ?post) = [Inr ()]
       then [(''argo-bootstrap-secret'', chartNode ?addon)] else [])"
    using postDeploy_now_dependencies [OF repo, of secretManager JSON_parse clusterInfo teams]
      createSecretKey_later_dependencies [OF repo, of secretManager JSON_parse clusterInfo
        "the (credentialsSecretName appRepo)"]
    by (simp add: run_to_completion_def postDeploy_floating [OF repo])
  show ?thesis
    using deploy_handle [of yaml_stringify this clusterInfo] ids deps by simp
qed

theorem manifests_depend_on_install_witness:
  \<open>bootstrapRepo (options example_addon) = Some example_repo \<and>
   chartNode (fst (deploy example_yaml example_addon example_cluster)) \<noteq> None \<and>
   manifest_ids (run_to_completion
     (postDeploy (string_secret ''{"k":"v"}'') example_parse
        (fst (deploy example_yaml example_addon example_cluster))
        example_cluster (Some []))) =
     [''bootstrap-app'', ''argo-bootstrap-secret''] \<and>
   dependencies (run_to_completion
     (postDeploy (string_secret ''{"k":"v"}'') example_parse
        (fst (deploy example_yaml example_addon example_cluster))
        example_cluster (Some []))) =
     [(''bootstrap-app'', chartNode (fst (deploy example_yaml example_addon example_cluster))),
      (''argo-bootstrap-secret'',
       chartNode (fst (deploy example_yaml example_addon example_cluster)))]\<close>
  using manifests_depend_on_install
    [of example_addon example_repo example_yaml example_cluster
        \<open>string_secret ''{"k":"v"}''\<close> example_parse "Some []"]
  by (simp add: example_addon_def new_ArgoCDAddOn_def example_repo_def string_secret_def
      example_parse_def postDeploy_def createSecretKey_def getSecretValue_def deploy_def
      Let_def)

subsection \<open>C8: no bootstrap repository\<close>

text \<open>
  C8: without a bootstrap repository \<^verbatim>\<open>postDeploy\<close> does nothing but the assertion on
  \<^verbatim>\<open>teams\<close>: it leaves no promise behind, and no document is submitted.
\<close>

theorem no_bootstrapRepo_noop:
  assumes "bootstrapRepo (options this) = None"
  shows "postDeploy secretManager JSON_parse this clusterInfo teams =
           ([ConsoleAssert (teams \<noteq> None)], []) \<and>
         run_to_completion (postDeploy secretManager JSON_parse this clusterInfo teams) =
           [ConsoleAssert (teams \<noteq> None)] \<and>
         documents (run_to_completion
           (postDeploy secretManager JSON_parse this clusterInfo teams)) = []"
  using assms by (simp add: postDeploy_def run_to_completion_def documents_def)

theorem no_bootstrapRepo_noop_witness:
  "bootstrapRepo (options (new_ArgoCDAddOn None)) = None \<and>
   postDeploy (string_secret ''x'') example_parse (new_ArgoCDAddOn None) example_cluster
     (Some []) = ([ConsoleAssert True], []) \<and>
   documents (run_to_completion
     (postDeploy (string_secret ''x'') example_parse (new_ArgoCDAddOn None) example_cluster
        (Some []))) = []"
  using no_bootstrapRepo_noop
    [of "new_ArgoCDAddOn None" "string_secret ''x''" example_parse example_cluster "Some []"]
  by (simp add: new_ArgoCDAddOn_def argoDefaults_def run_to_completion_def documents_def)

subsection \<open>C9: the target revision\<close>

text \<open>
  C9: with a bootstrap repository, an invocation of \<^verbatim>\<open>postDeploy\<close> submits exactly one
  Application document, and its \<^verbatim>\<open>spec.source.targetRevision\<close> is the string
  \<^verbatim>\<open>HEAD\<close>, whatever the configuration, the secrets service and the parser are.
\<close>

theorem targetRevision_HEAD:
  assumes "bootstrapRepo (options this) = Some appRepo"
  shows "map (\<lambda>d. path_of d [''spec'', ''source'', ''targetRevision''])
           (documents_of_kind ''Application''
              (run_to_completion (postDeploy secretManager JSON_parse this clusterInfo teams))) =
         [JStr ''HEAD'']"
  by (simp add: postDeploy_applications [OF assms] postDeploy_now_documents [OF assms]
      get_prop_def)

theorem targetRevision_HEAD_witness:
  \<open>bootstrapRepo (options example_addon) = Some example_repo \<and>
   map (\<lambda>d. path_of d [''spec'', ''source'', ''targetRevision''])
     (documents_of_kind ''Application''
        (run_to_completion
           (postDeploy (string_secret ''{"k":"v"}'') example_parse example_addon
              example_cluster (Some [])))) = [JStr ''HEAD'']\<close>
  using targetRevision_HEAD
    [of example_addon example_repo \<open>string_secret ''{"k":"v"}''\<close> example_parse
        example_cluster "Some []"]
  by (simp add: example_addon_def new_ArgoCDAddOn_def)

subsection \<open>C10: the names of the manifests\<close>

text \<open>
  C10: with a bootstrap repository, the Application document of an invocation is named
  by the repository's \<^verbatim>\<open>name\<close> when it is set and \<^verbatim>\<open>bootstrap-apps\<close> otherwise; the
  Secret document, submitted when the secret sub-operation succeeds, is named by the
  repository's \<^verbatim>\<open>name\<close> when it is set and \<^verbatim>\<open>bootstrap-repo-secret\<close> otherwise. So
  with a \<^verbatim>\<open>name\<close> every document of the invocation has that name. The repositories
  declaration of \<^verbatim>\<open>deploy\<close> refers to the secret \<^verbatim>\<open>bootstrap-repo-secret1\<close>, which the
  default name of the Secret is not.
\<close>

theorem manifest_names:
  assumes "bootstrapRepo (options this) = Some appRepo"
  shows "map (\<lambda>d. path_of d [''metadata'', ''name''])
           (documents_of_kind ''Application''
              (run_to_completion (postDeploy secretManager JSON_parse this clusterInfo teams))) =
           [JStr (case name appRepo of Some n \<Rightarrow> n | None \<Rightarrow> ''bootstrap-apps'')] \<and>
         map (\<lambda>d. path_of d [''metadata'', ''name''])
           (documents_of_kind ''Secret''
              (run_to_completion (postDeploy secretManager JSON_parse this clusterInfo teams))) =
           (if map settled (snd (postDeploy secretManager JSON_parse this clusterInfo teams)) =
                 [Inr ()]
            then [JStr (case name appRepo of Some n \<Rightarrow> n | None \<Rightarrow> ''bootstrap-repo-secret'')]
            else []) \<and>
         (name appRepo = Some n \<longrightarrow>
            set (map (\<lambda>d. path_of d [''metadata'', ''name''])
                   (documents_of_kind ''Application''
                      (run_to_completion
                         (postDeploy secretManager JSON_parse this clusterInfo teams)) @
                    documents_of_kind ''Secret''
                      (run_to_completion
                         (postDeploy secretManager JSON_parse this clusterInfo teams)))) =
            {JStr n}) \<and>
         referenced_secret_names (repositories_declaration appRepo) =
           [JStr ''bootstrap-repo-secret1''] \<and>
         (name appRepo = None \<longrightarrow>
            set (map (\<lambda>d. path_of d [''metadata'', ''name''])
                   (documents_of_kind ''Secret''
                      (run_to_completion
                         (postDeploy secretManager JSON_parse this clusterInfo teams)))) \<inter>
            set (referenced_secret_names (repositories_declaration appRepo)) = {})"
proof -
  let ?post = "postDeploy secretManager JSON_parse this clusterInfo teams"
  let ?key = "createSecretKey secretManager JSON_parse this clusterInfo
                (the (credentialsSecretName appRepo))"
  let ?name_of = "\<lambda>d. path_of d [''metadata'', ''name'']"
  have app: "map ?name_of (documents_of_kind ''Application'' (run_to_completion ?post)) =
      [JStr (case name appRepo of Some n \<Rightarrow> n | None \<Rightarrow> ''bootstrap-apps'')]"
    by (simp add: postDeploy_applications [OF assms] postDeploy_now_documents [OF assms]
        get_prop_def)
  have "map snd (map (\<lambda>d. (get_prop ''kind'' d, path_of d [''metadata'', ''name'']))
      (documents (later (snd ?key)))) =
      map snd (if settled (snd ?key) = Inr ()
         then [(JStr ''Secret'',
                JStr (case name appRepo of Some n \<Rightarrow> n | None \<Rightarrow> ''bootstrap-repo-secret''))]
         else [])"
    by (simp only: createSecretKey_later_summary [OF assms])
  then have key_names: "map ?name_of (documents (later (snd ?key))) =
      (if settled (snd ?key) = Inr ()
       then [JStr (case name appRepo of Some n \<Rightarrow> n | None \<Rightarrow> ''bootstrap-repo-secret'')]
       else [])"
    by (simp add: comp_def split: if_splits)
  have secret: "map ?name_of (documents_of_kind ''Secret'' (run_to_completion ?post)) =
      (if map settled (snd ?post) = [Inr ()]
       then [JStr (case name appRepo of Some n \<Rightarrow> n | None \<Rightarrow> ''bootstrap-repo-secret'')]
       else [])"
  proof (cases "truthy (credentialsSecretName appRepo)")
    case True
    then show ?thesis
      by (simp only: postDeploy_secrets [OF assms] postDeploy_settled [OF assms] key_names
          if_True simp_thms)
  next
    case False
    then show ?thesis
      by (simp add: postDeploy_secrets [OF assms] postDeploy_settled [OF assms])
  qed
  have ref: "referenced_secret_names (repositories_declaration appRepo) =
      [JStr ''bootstrap-repo-secret1'']"
    by (simp add: referenced_secret_names_def repositories_declaration_def get_prop_def)
  have shared: "name appRepo = Some n \<longrightarrow>
      set (map ?name_of
             (documents_of_kind ''Application'' (run_to_completion ?post) @
              documents_of_kind ''Secret'' (run_to_completion ?post))) = {JStr n}"
    by (simp only: map_append app secret) auto
  have apart: "name appRepo = None \<longrightarrow>
      set (map ?name_of (documents_of_kind ''Secret'' (run_to_completion ?post))) \<inter>
      set (referenced_secret_names (repositories_declaration appRepo)) = {}"
    by (simp only: secret ref) simp
  from app secret shared ref apart show ?thesis
    by (simp only: simp_thms)
qed

theorem manifest_names_witness:
  \<open>bootstrapRepo (options example_addon) = Some example_repo \<and>
   name example_repo = None \<and>
   map (\<lambda>d. path_of d [''metadata'', ''name''])
     (documents_of_kind ''Application''
        (run_to_completion
           (postDeploy (string_secret ''{"k":"v"}'') example_parse example_addon
              example_cluster (Some [])))) = [JStr ''bootstrap-apps''] \<and>
   map (\<lambda>d. path_of d [''metadata'', ''name''])
     (documents_of_kind ''Secret''
        (run_to_completion
           (postDeploy (string_secret ''{"k":"v"}'') example_parse example_addon
              example_cluster (Some [])))) = [JStr ''bootstrap-repo-secret''] \<and>
   referenced_secret_names (repositories_declaration example_repo) =
     [JStr ''bootstrap-repo-secret1''] \<and>
   bootstrapRepo (options example_named_addon) = Some (example_repo\<lparr>name := Some ''apps''\<rparr>) \<and>
   map (\<lambda>d. path_of d [''metadata'', ''name''])
     (documents_of_kind ''Application''
        (run_to_completion
           (postDeploy (string_secret ''{"k":"v"}'') example_parse example_named_addon
              example_cluster (Some [])))) = [JStr ''apps''] \<and>
   map (\<lambda>d. path_of d [''metadata'', ''name''])
     (documents_of_kind ''Secret''
        (run_to_completion
           (postDeploy (string_secret ''{"k":"v"}'') example_parse example_named_addon
              example_cluster (Some [])))) = [JStr ''apps'']\<close>
  using manifest_names
    [of example_addon example_repo \<open>string_secret ''{"k":"v"}''\<close> example_parse
        example_cluster "Some []" "''apps''"]
    manifest_names
    [of example_named_addon "example_repo\<lparr>name := Some ''apps''\<rparr>"
        \<open>string_secret ''{"k":"v"}''\<close> example_parse example_cluster "Some []" "''apps''"]
  by (simp add: example_addon_def example_named_addon_def new_ArgoCDAddOn_def example_repo_def
      string_secret_def example_parse_def postDeploy_def createSecretKey_def
      getSecretValue_def Let_def)

end
